theory Spec2Isabelle
  imports Complex_Main
begin

section \<open>Values and strings of the program\<close>

text \<open>
  The program is a Node.js script. A JavaScript string is modelled as a \<^typ>\<open>string\<close>:
  one \<^typ>\<open>char\<close> per code unit, for the code units 0 to 255. The values the program
  handles (the entries of the parsed theme file, the entries of a generated palette) are
  JavaScript values of any type, so they get a datatype of their own: what \<^verbatim>\<open>JSON.parse\<close>
  can return (an array with its elements, an object with its own properties in creation
  order) and \<^verbatim>\<open>undefined\<close>.
\<close>

datatype jsvalue =
    JUndefined
  | JNull
  | JBool bool
  | JNum real
  | JStr string
  | JArray "jsvalue list"
  | JObject "(string \<times> jsvalue) list"

text \<open>The operand of \<^verbatim>\<open>!hex\<close>: the values that JavaScript treats as false.\<close>

fun falsy :: "jsvalue \<Rightarrow> bool" where
  "falsy JUndefined = True"
| "falsy JNull = True"
| "falsy (JBool b) = (\<not> b)"
| "falsy (JNum x) = (x = 0)"
| "falsy (JStr s) = (s = [])"
| "falsy (JArray xs) = False"
| "falsy (JObject props) = False"

fun typeof :: "jsvalue \<Rightarrow> string" where
  "typeof JUndefined = ''undefined''"
| "typeof JNull = ''object''"
| "typeof (JBool b) = ''boolean''"
| "typeof (JNum x) = ''number''"
| "typeof (JStr s) = ''string''"
| "typeof (JArray xs) = ''object''"
| "typeof (JObject props) = ''object''"

text \<open>Reading an array beyond its end gives \<^verbatim>\<open>undefined\<close>.\<close>

definition at_index :: "jsvalue list \<Rightarrow> nat \<Rightarrow> jsvalue" where
  "at_index xs i = (if i < length xs then xs ! i else JUndefined)"

subsection \<open>Values in template literals\<close>

text \<open>
  \<^verbatim>\<open>${v}\<close> converts \<^verbatim>\<open>v\<close> to a string, and for some values the conversion throws a
  \<^verbatim>\<open>TypeError\<close>. A parsed object has no function among its own properties, so one with an
  own property \<^verbatim>\<open>toString\<close> offers no callable \<^verbatim>\<open>toString\<close>, and \<^verbatim>\<open>valueOf\<close> gives back the
  object or is not callable either: the conversion throws. Any other parsed object is
  written by \<^verbatim>\<open>Object.prototype.toString\<close>. An array joins the conversions of its elements
  (skipping \<^verbatim>\<open>null\<close>), so it throws when one of them does. Primitive values never throw.
\<close>

datatype exn = Thrown string

fun to_string_throws :: "jsvalue \<Rightarrow> bool" where
  "to_string_throws (JObject props) = (''toString'' \<in> set (map fst props))"
| "to_string_throws (JArray xs) = list_ex to_string_throws xs"
| "to_string_throws v = False"

definition type_error :: exn where
  "type_error = Thrown ''Cannot convert object to primitive value''"

definition digit_char :: "nat \<Rightarrow> char" where
  "digit_char d = ''0123456789'' ! d"

fun decimal :: "nat \<Rightarrow> string" where
  "decimal n = (if n < 10 then [digit_char n] else decimal (n div 10) @ [digit_char (n mod 10)])"

declare decimal.simps [simp del]

text \<open>
  The result of \<^verbatim>\<open>parseInt\<close> is an integer or \<^verbatim>\<open>NaN\<close> (here \<^const>\<open>None\<close>);
  \<^verbatim>\<open>${r}\<close> writes it in decimal, \<^verbatim>\<open>NaN\<close> as the three letters, and minus zero
  (the integer 0 here) as \<^verbatim>\<open>0\<close>.
\<close>

fun number_to_string :: "int option \<Rightarrow> string" where
  "number_to_string None = ''NaN''"
| "number_to_string (Some i) = (if i < 0 then CHR ''-'' # decimal (nat (- i)) else decimal (nat i))"

subsection \<open>\<^verbatim>\<open>parseInt(s, 16)\<close>\<close>

text \<open>
  White space and line terminators among the code units below 256: TAB, LF, VT, FF, CR,
  space and the no-break space.
\<close>

definition is_white_space :: "char \<Rightarrow> bool" where
  "is_white_space c = ((of_char c :: nat) \<in> {9, 10, 11, 12, 13, 32, 160})"

definition hex_digit_value :: "char \<Rightarrow> nat option" where
  "hex_digit_value c =
     (let n = (of_char c :: nat) in
      if 48 \<le> n \<and> n \<le> 57 then Some (n - 48)
      else if 97 \<le> n \<and> n \<le> 102 then Some (n - 87)
      else if 65 \<le> n \<and> n \<le> 70 then Some (n - 55)
      else None)"

text \<open>The longest prefix of radix-16 digits, read as a number; \<open>acc\<close> holds the digits read so far.\<close>

fun read_hex_digits :: "string \<Rightarrow> nat option \<Rightarrow> nat option" where
  "read_hex_digits [] acc = acc"
| "read_hex_digits (c # cs) acc =
     (case hex_digit_value c of
        None \<Rightarrow> acc
      | Some d \<Rightarrow> read_hex_digits cs (Some (16 * (case acc of None \<Rightarrow> 0 | Some a \<Rightarrow> a) + d)))"

definition strip_hex_prefix :: "string \<Rightarrow> string" where
  "strip_hex_prefix s =
     (if take 2 s = ''0x'' \<or> take 2 s = ''0X'' then drop 2 s else s)"

text \<open>
  The steps of the language's \<^verbatim>\<open>parseInt\<close> for radix 16: drop leading white space,
  read an optional sign, drop an optional \<^verbatim>\<open>0x\<close> or \<^verbatim>\<open>0X\<close>, read the longest prefix of
  hexadecimal digits; no digit at all gives \<^verbatim>\<open>NaN\<close>. The number is exact below
  \<open>2 ^ 53\<close>; the program only passes two code units.
\<close>

definition parseInt16 :: "string \<Rightarrow> int option" where
  "parseInt16 str =
     (let s = dropWhile is_white_space str;
          sign = (if s \<noteq> [] \<and> hd s = CHR ''-'' then - 1 else (1::int));
          s1 = (if s \<noteq> [] \<and> (hd s = CHR ''+'' \<or> hd s = CHR ''-'') then tl s else s);
          s2 = strip_hex_prefix s1
      in case read_hex_digits s2 None of
           None \<Rightarrow> None
         | Some m \<Rightarrow> Some (sign * int m))"

text \<open>\<^verbatim>\<open>s.substring(i, j)\<close> for \<open>i \<le> j\<close>.\<close>

definition substring :: "string \<Rightarrow> nat \<Rightarrow> nat \<Rightarrow> string" where
  "substring s i j = take (j - i) (drop i s)"

section \<open>hexToRgbValues\<close>

text \<open>
  \<^verbatim>\<open>
  function hexToRgbValues(hex) {
    if (!hex || typeof hex !== 'string') return '0, 0, 0';
    let cleanHex = hex.startsWith('#') ? hex.slice(1) : hex;
    if (cleanHex.length === 3) {
      cleanHex = cleanHex.split('').map(char => char + char).join('');
    }
    if (cleanHex.length !== 6) {
      return '0, 0, 0';
    }
    try {
      const r = parseInt(cleanHex.substring(0, 2), 16);
      const g = parseInt(cleanHex.substring(2, 4), 16);
      const b = parseInt(cleanHex.substring(4, 6), 16);
      return `${r}, ${g}, ${b}`;
    } catch (error) {
      return '0, 0, 0';
    }
  }
  \<close>
  \<^verbatim>\<open>parseInt\<close> and the template literal never throw, so the \<^verbatim>\<open>catch\<close> branch has no
  counterpart in the model.
\<close>

definition double_chars :: "string \<Rightarrow> string" where
  "double_chars s = concat (map (\<lambda>c. [c, c]) s)"

definition rgb_of_clean :: "string \<Rightarrow> string" where
  "rgb_of_clean cleanHex =
     (let cleanHex' = (if length cleanHex = 3 then double_chars cleanHex else cleanHex)
      in if length cleanHex' \<noteq> 6 then ''0, 0, 0''
         else
           (let r = parseInt16 (substring cleanHex' 0 2);
                g = parseInt16 (substring cleanHex' 2 4);
                b = parseInt16 (substring cleanHex' 4 6)
            in number_to_string r @ '', '' @ number_to_string g @ '', '' @ number_to_string b))"

text \<open>\<^verbatim>\<open>hex.startsWith('#') ? hex.slice(1) : hex\<close>\<close>

definition strip_hash :: "string \<Rightarrow> string" where
  "strip_hash hex = (if take 1 hex = ''#'' then drop 1 hex else hex)"

definition hexToRgbValues :: "jsvalue \<Rightarrow> string" where
  "hexToRgbValues hex =
     (if falsy hex \<or> typeof hex \<noteq> ''string'' then ''0, 0, 0''
      else case hex of
             JStr h \<Rightarrow> rgb_of_clean (strip_hash h)
           | _ \<Rightarrow> ''0, 0, 0'')"

section \<open>The colour library\<close>

text \<open>
  The script delegates colour interpolation to the third-party package \<^verbatim>\<open>chroma-js\<close>,
  whose code is not part of the repository. The two call chains
  \<^verbatim>\<open>chroma.scale(cs).mode(m).colors(n)\<close> and
  \<^verbatim>\<open>chroma.scale(cs).mode(m).padding(p).colors(n)\<close> are therefore a parameter of the
  model: a function from the description of the scale and the number of samples to the
  array of samples, or to the exception the chain throws. The padding fractions are kept as
  the script writes them.
\<close>

record scale =
  endpoints :: "jsvalue list"
  mode :: string
  padding :: "(real \<times> real) option"

type_synonym chroma = "scale \<Rightarrow> nat \<Rightarrow> exn + jsvalue list"

section \<open>createTonalPaletteFrom100\<close>

text \<open>
  The palette is a JavaScript object with integer keys. It is modelled as the list of its
  properties in creation order; an assignment replaces the value of an existing key and
  appends a new key, and \<^verbatim>\<open>for ... in\<close> visits integer keys in ascending numeric order.
\<close>

type_synonym palette = "(nat \<times> jsvalue) list"

fun put_property :: "palette \<Rightarrow> nat \<Rightarrow> jsvalue \<Rightarrow> palette" where
  "put_property [] k v = [(k, v)]"
| "put_property ((k', v') # ps) k v =
     (if k' = k then (k, v) # ps else (k', v') # put_property ps k v)"

definition get_property :: "palette \<Rightarrow> nat \<Rightarrow> jsvalue" where
  "get_property p k = (case map_of p k of None \<Rightarrow> JUndefined | Some v \<Rightarrow> v)"

definition forin_keys :: "palette \<Rightarrow> nat list" where
  "forin_keys p = sort (map fst p)"

text \<open>
  What \<^verbatim>\<open>console.error\<close> receives when palette generation fails: the base colour named in
  the message and the error object.
\<close>

record log_entry =
  about :: jsvalue
  thrown :: exn

definition shades :: "nat list" where
  "shades = [50, 100, 200, 300, 400, 500, 600, 700, 800, 900, 950]"

text \<open>
  \<^verbatim>\<open>
  function createTonalPaletteFrom100(baseColorHex) {
    const palette = {};
    try {
      const shades = [50, 100, 200, 300, 400, 500, 600, 700, 800, 900, 950];
      const lighterShade = chroma.scale(['#FFFFFF', baseColorHex]).mode('lch').colors(3)[1];
      const darkerShades = chroma.scale([baseColorHex, '#09090b']).mode('lch')
                                 .padding([0.1, 0.25]).colors(10).slice(1);
      const generatedColors = [lighterShade, baseColorHex, ...darkerShades];
      shades.forEach((shade, index) => {
        palette[shade] = generatedColors[index];
      });
    } catch (error) {
      console.error(`Error generating palette for ${baseColorHex}:`, error);
      return null;
    }
    return palette;
  }
  \<close>
  The result is the list of messages written to the error console and the palette, with
  \<^const>\<open>None\<close> for \<^verbatim>\<open>null\<close>; or, on the left, the exception that leaves the function.
\<close>

definition fill_palette :: "jsvalue list \<Rightarrow> palette" where
  "fill_palette generatedColors =
     foldl (\<lambda>palette (shade, index). put_property palette shade (at_index generatedColors index))
       [] (zip shades [0 ..< length shades])"

text \<open>\<^verbatim>\<open>chroma.scale(['#FFFFFF', baseColorHex]).mode('lch')\<close>\<close>

definition lighter_scale :: "jsvalue \<Rightarrow> scale" where
  "lighter_scale baseColorHex =
     \<lparr>endpoints = [JStr ''#FFFFFF'', baseColorHex], mode = ''lch'', padding = None\<rparr>"

text \<open>\<^verbatim>\<open>chroma.scale([baseColorHex, '#09090b']).mode('lch').padding([0.1, 0.25])\<close>\<close>

definition darker_scale :: "jsvalue \<Rightarrow> scale" where
  "darker_scale baseColorHex =
     \<lparr>endpoints = [baseColorHex, JStr ''#09090b''], mode = ''lch'', padding = Some (0.1, 0.25)\<rparr>"

text \<open>
  The \<^verbatim>\<open>catch\<close> block (lines 88 to 91). The message
  \<^verbatim>\<open>`Error generating palette for ${baseColorHex}:`\<close> is built before \<^verbatim>\<open>console.error\<close> is
  called: when the base colour cannot be converted to a string, the \<^verbatim>\<open>TypeError\<close> leaves
  the function, nothing is logged and \<^verbatim>\<open>return null\<close> is not reached.
\<close>

definition catch_block :: "jsvalue \<Rightarrow> exn \<Rightarrow> exn + log_entry list \<times> palette option" where
  "catch_block baseColorHex error =
     (if to_string_throws baseColorHex then Inl type_error
      else Inr ([\<lparr>about = baseColorHex, thrown = error\<rparr>], None))"

definition createTonalPaletteFrom100 ::
  "chroma \<Rightarrow> jsvalue \<Rightarrow> exn + log_entry list \<times> palette option" where
  "createTonalPaletteFrom100 lib baseColorHex =
     (case lib (lighter_scale baseColorHex) 3 of
        Inl error \<Rightarrow> catch_block baseColorHex error
      | Inr lighter \<Rightarrow>
          (case lib (darker_scale baseColorHex) 10 of
             Inl error \<Rightarrow> catch_block baseColorHex error
           | Inr darker \<Rightarrow>
               (let lighterShade = at_index lighter 1;
                    darkerShades = drop 1 darker;
                    generatedColors = [lighterShade, baseColorHex] @ darkerShades
                in Inr ([], Some (fill_palette generatedColors)))))"

section \<open>toKebabCase\<close>

text \<open>
  \<^verbatim>\<open>str.replace(/([a-z0-9])([A-Z])/g, '$1-$2').toLowerCase()\<close>: the matches are taken from
  left to right and do not overlap; lower-casing moves the upper-case letters among the code
  units below 256 (A to Z, and U+00C0 to U+00DE without U+00D7) up by 32.
\<close>

definition is_lower_or_digit :: "char \<Rightarrow> bool" where
  "is_lower_or_digit c =
     (let n = (of_char c :: nat) in (97 \<le> n \<and> n \<le> 122) \<or> (48 \<le> n \<and> n \<le> 57))"

definition is_upper :: "char \<Rightarrow> bool" where
  "is_upper c = (let n = (of_char c :: nat) in 65 \<le> n \<and> n \<le> 90)"

fun hyphenate :: "string \<Rightarrow> string" where
  "hyphenate (a # b # cs) =
     (if is_lower_or_digit a \<and> is_upper b then a # CHR ''-'' # b # hyphenate cs
      else a # hyphenate (b # cs))"
| "hyphenate cs = cs"

definition lower_char :: "char \<Rightarrow> char" where
  "lower_char c =
     (let n = (of_char c :: nat) in
      if (65 \<le> n \<and> n \<le> 90) \<or> (192 \<le> n \<and> n \<le> 222 \<and> n \<noteq> 215) then char_of (n + 32) else c)"

definition toKebabCase :: "string \<Rightarrow> string" where
  "toKebabCase str = map lower_char (hyphenate str)"

text \<open>\<^verbatim>\<open>roleKebab.replace(/-/g, ' ')\<close>\<close>

definition hyphens_to_spaces :: "string \<Rightarrow> string" where
  "hyphens_to_spaces s = map (\<lambda>c. if c = CHR ''-'' then CHR '' '' else c) s"

section \<open>The command's action\<close>

text \<open>
  The action reads and parses the theme file, builds two arrays of lines and writes them
  out joined by line feeds. The model starts from the parsed document: each scheme is the
  list of its properties in the order in which \<^verbatim>\<open>for ... in\<close> visits them (a scheme that is
  missing has no property to visit; a document that is \<^verbatim>\<open>null\<close>, for which \<^verbatim>\<open>schemes.light\<close>
  throws before anything is emitted, is not among the inputs). The state is the two arrays
  and the error console. An exception that leaves a loop body reaches the \<^verbatim>\<open>catch\<close> of the
  action (lines 213 to 216), which prints its message and ends the process with status 1:
  the file is not written.
\<close>

record schemes =
  light :: "(string \<times> jsvalue) list"
  dark :: "(string \<times> jsvalue) list"

record emitted =
  cssRawVarsOutput :: "string list"
  themeRegistrationOutput :: "string list"
  console_error :: "log_entry list"

definition KEYS_TO_SKIP :: "string list" where
  "KEYS_TO_SKIP = [''background'', ''surface'', ''surfaceTint'', ''shadow'', ''scrim'',
     ''outline'', ''outlineVariant'', ''surfaceDim'', ''surfaceBright'']"

definition push_css :: "string \<Rightarrow> emitted \<Rightarrow> emitted" where
  "push_css line st = st\<lparr>cssRawVarsOutput := cssRawVarsOutput st @ [line]\<rparr>"

definition push_theme :: "string \<Rightarrow> emitted \<Rightarrow> emitted" where
  "push_theme line st = st\<lparr>themeRegistrationOutput := themeRegistrationOutput st @ [line]\<rparr>"

definition log_errors :: "log_entry list \<Rightarrow> emitted \<Rightarrow> emitted" where
  "log_errors es st = st\<lparr>console_error := console_error st @ es\<rparr>"

definition LF :: char where
  "LF = CHR 0x0A"

subsection \<open>The template literals\<close>

text \<open>\<^verbatim>\<open>`\n  /* --- ${roleKebab.replace(/-/g, ' ')} --- */`\<close> (line 151)\<close>

definition light_comment :: "string \<Rightarrow> string" where
  "light_comment roleKebab = LF # ''  /* --- '' @ hyphens_to_spaces roleKebab @ '' --- */''"

text \<open>\<^verbatim>\<open>`  --md-sys-color-${roleKebab}: ${colorRgbValues}; /* Locked Color */`\<close> (line 152)\<close>

definition light_base_decl :: "string \<Rightarrow> string \<Rightarrow> string" where
  "light_base_decl roleKebab colorRgbValues =
     ''  --md-sys-color-'' @ roleKebab @ '': '' @ colorRgbValues @ ''; /* Locked Color */''"

text \<open>\<^verbatim>\<open>`\n  /* ${roleKebab.replace(/-/g, ' ')} */`\<close> (line 154)\<close>

definition theme_comment :: "string \<Rightarrow> string" where
  "theme_comment roleKebab = LF # ''  /* '' @ hyphens_to_spaces roleKebab @ '' */''"

text \<open>\<^verbatim>\<open>`  --color-${roleKebab}: var(--md-sys-color-${roleKebab}); /* Locked Color */`\<close> (line 155)\<close>

definition theme_base_decl :: "string \<Rightarrow> string" where
  "theme_base_decl roleKebab =
     ''  --color-'' @ roleKebab @ '': var(--md-sys-color-'' @ roleKebab
       @ ''); /* Locked Color */''"

text \<open>\<^verbatim>\<open>`  --md-sys-color-${roleKebab}-${shade}: ${shadeRgbValues};`\<close> (line 163)\<close>

definition light_shade_decl :: "string \<Rightarrow> nat \<Rightarrow> string \<Rightarrow> string" where
  "light_shade_decl roleKebab shade shadeRgbValues =
     ''  --md-sys-color-'' @ roleKebab @ ''-'' @ decimal shade @ '': '' @ shadeRgbValues @ '';''"

text \<open>\<^verbatim>\<open>`  --color-${roleKebab}-${shade}: var(--md-sys-color-${roleKebab}-${shade});`\<close> (line 164)\<close>

definition theme_shade_decl :: "string \<Rightarrow> nat \<Rightarrow> string" where
  "theme_shade_decl roleKebab shade =
     ''  --color-'' @ roleKebab @ ''-'' @ decimal shade
       @ '': var(--md-sys-color-'' @ roleKebab @ ''-'' @ decimal shade @ '');''"

text \<open>\<^verbatim>\<open>`\n    /* --- ${roleKebab.replace(/-/g, ' ')} --- */`\<close> (line 179)\<close>

definition dark_comment :: "string \<Rightarrow> string" where
  "dark_comment roleKebab = LF # ''    /* --- '' @ hyphens_to_spaces roleKebab @ '' --- */''"

text \<open>\<^verbatim>\<open>`    --md-sys-color-${roleKebab}: ${colorRgbValues}; /* Locked Color */`\<close> (line 180)\<close>

definition dark_base_decl :: "string \<Rightarrow> string \<Rightarrow> string" where
  "dark_base_decl roleKebab colorRgbValues =
     ''    --md-sys-color-'' @ roleKebab @ '': '' @ colorRgbValues @ ''; /* Locked Color */''"

text \<open>\<^verbatim>\<open>`    --md-sys-color-${roleKebab}-${shade}: ${shadeRgbValues};`\<close> (line 188)\<close>

definition dark_shade_decl :: "string \<Rightarrow> nat \<Rightarrow> string \<Rightarrow> string" where
  "dark_shade_decl roleKebab shade shadeRgbValues =
     ''    --md-sys-color-'' @ roleKebab @ ''-'' @ decimal shade @ '': '' @ shadeRgbValues @ '';''"

subsection \<open>The two loops\<close>

text \<open>
  The body of \<^verbatim>\<open>for (const shade in newPalette)\<close> in the light scheme (lines 161 to 164):
  \<^verbatim>\<open>
  const shadeHex = newPalette[shade];
  const shadeRgbValues = hexToRgbValues(shadeHex);
  cssRawVarsOutput.push(...);
  themeRegistrationOutput.push(...);
  \<close>
\<close>

definition light_shade :: "string \<Rightarrow> palette \<Rightarrow> emitted \<Rightarrow> nat \<Rightarrow> emitted" where
  "light_shade roleKebab newPalette st shade =
     (let shadeHex = get_property newPalette shade;
          shadeRgbValues = hexToRgbValues shadeHex
      in push_theme (theme_shade_decl roleKebab shade)
           (push_css (light_shade_decl roleKebab shade shadeRgbValues) st))"

text \<open>
  The body of \<^verbatim>\<open>for (const role in schemes.light)\<close> (lines 147 to 167). The palette is
  generated unless the role is in the skip list; \<^verbatim>\<open>if (newPalette)\<close> fails for \<^verbatim>\<open>null\<close> only.
\<close>

definition light_role :: "chroma \<Rightarrow> emitted \<Rightarrow> string \<times> jsvalue \<Rightarrow> exn + emitted" where
  "light_role lib st entry =
     (let role = fst entry;
          colorHex = snd entry;
          roleKebab = toKebabCase role;
          colorRgbValues = hexToRgbValues colorHex;
          st1 = push_css (light_comment roleKebab) st;
          st2 = push_css (light_base_decl roleKebab colorRgbValues) st1;
          st3 = push_theme (theme_comment roleKebab) st2;
          st4 = push_theme (theme_base_decl roleKebab) st3
      in if role \<notin> set KEYS_TO_SKIP then
           (case createTonalPaletteFrom100 lib colorHex of
              Inl error \<Rightarrow> Inl error
            | Inr (errors, None) \<Rightarrow> Inr (log_errors errors st4)
            | Inr (errors, Some newPalette) \<Rightarrow>
                Inr (foldl (light_shade roleKebab newPalette) (log_errors errors st4)
                       (forin_keys newPalette)))
         else Inr st4)"

text \<open>
  The body of \<^verbatim>\<open>for (const shade in newPalette)\<close> in the dark scheme (lines 186 to 188):
  \<^verbatim>\<open>
  const shadeHex = newPalette[shade];
  const shadeRgbValues = hexToRgbValues(shadeHex);
  cssRawVarsOutput.push(...);
  \<close>
\<close>

definition dark_shade :: "string \<Rightarrow> palette \<Rightarrow> emitted \<Rightarrow> nat \<Rightarrow> emitted" where
  "dark_shade roleKebab newPalette st shade =
     (let shadeHex = get_property newPalette shade;
          shadeRgbValues = hexToRgbValues shadeHex
      in push_css (dark_shade_decl roleKebab shade shadeRgbValues) st)"

text \<open>The body of \<^verbatim>\<open>for (const role in schemes.dark)\<close> (lines 175 to 191).\<close>

definition dark_role :: "chroma \<Rightarrow> emitted \<Rightarrow> string \<times> jsvalue \<Rightarrow> exn + emitted" where
  "dark_role lib st entry =
     (let role = fst entry;
          colorHex = snd entry;
          roleKebab = toKebabCase role;
          colorRgbValues = hexToRgbValues colorHex;
          st1 = push_css (dark_comment roleKebab) st;
          st2 = push_css (dark_base_decl roleKebab colorRgbValues) st1
      in if role \<notin> set KEYS_TO_SKIP then
           (case createTonalPaletteFrom100 lib colorHex of
              Inl error \<Rightarrow> Inl error
            | Inr (errors, None) \<Rightarrow> Inr (log_errors errors st2)
            | Inr (errors, Some newPalette) \<Rightarrow>
                Inr (foldl (dark_shade roleKebab newPalette) (log_errors errors st2)
                       (forin_keys newPalette)))
         else Inr st2)"

text \<open>
  \<^verbatim>\<open>for (const role in scheme) { body }\<close>: the passes follow one another until one of them
  throws.
\<close>

fun for_each_role ::
  "(emitted \<Rightarrow> string \<times> jsvalue \<Rightarrow> exn + emitted) \<Rightarrow> emitted \<Rightarrow> (string \<times> jsvalue) list
     \<Rightarrow> exn + emitted" where
  "for_each_role body st [] = Inr st"
| "for_each_role body st (entry # entries) =
     (case body st entry of
        Inl error \<Rightarrow> Inl error
      | Inr st' \<Rightarrow> for_each_role body st' entries)"

definition rule_line :: string where
  "rule_line = ''/* ================================================================== */''"

definition root_header :: "string list" where
  "root_header =
     [rule_line,
      ''/* MATERIAL DESIGN COLOR TOKENS (LIGHT & DARK)                  */'',
      rule_line @ [LF],
      '':root {'']"

definition dark_header :: "string list" where
  "dark_header = [''}'' @ [LF], ''@media (prefers-color-scheme: dark) {'', ''  :root {'']"

definition dark_footer :: "string list" where
  "dark_footer = [''  }'', ''}'' @ [LF]]"

text \<open>
  Lines 137 to 196 of the action: the state after both schemes have been processed and the
  registration block has been closed, or the exception that ended the action.
\<close>

definition action :: "chroma \<Rightarrow> schemes \<Rightarrow> exn + emitted" where
  "action lib schemes =
     (let st0 = \<lparr>cssRawVarsOutput = [], themeRegistrationOutput = [''@theme {''],
                 console_error = []\<rparr>;
          st1 = foldl (\<lambda>st line. push_css line st) st0 root_header
      in case for_each_role (light_role lib) st1 (light schemes) of
           Inl error \<Rightarrow> Inl error
         | Inr st2 \<Rightarrow>
             (let st3 = foldl (\<lambda>st line. push_css line st) st2 dark_header
              in case for_each_role (dark_role lib) st3 (dark schemes) of
                   Inl error \<Rightarrow> Inl error
                 | Inr st4 \<Rightarrow>
                     (let st5 = foldl (\<lambda>st line. push_css line st) st4 dark_footer
                      in Inr (push_theme ''}'' st5))))"

text \<open>Lines 199 to 205: the lines of the file that is written.\<close>

definition finalCssOutput :: "emitted \<Rightarrow> string list" where
  "finalCssOutput st =
     cssRawVarsOutput st
     @ [rule_line,
        ''/* TOKEN REGISTRATION FOR TAILWIND v4 @theme                    */'',
        rule_line]
     @ themeRegistrationOutput st"

section \<open>What the specification says of the output\<close>

text \<open>
  The byte a pair of hexadecimal digits denotes, read off the table of digits, is what the
  specification calls the standard byte decomposition.
\<close>

definition is_hex_digit :: "char \<Rightarrow> bool" where
  "is_hex_digit c = (c \<in> set ''0123456789abcdefABCDEF'')"

definition hex_digit_table :: "(char \<times> nat) list" where
  "hex_digit_table = zip ''0123456789abcdef'' [0 ..< 16] @ zip ''ABCDEF'' [10 ..< 16]"

definition digit_of :: "char \<Rightarrow> nat" where
  "digit_of c = (case map_of hex_digit_table c of None \<Rightarrow> 0 | Some d \<Rightarrow> d)"

definition byte_of :: "char \<Rightarrow> char \<Rightarrow> nat" where
  "byte_of hi lo = 16 * digit_of hi + digit_of lo"

definition rgb_text :: "nat \<Rightarrow> nat \<Rightarrow> nat \<Rightarrow> string" where
  "rgb_text r g b = decimal r @ '', '' @ decimal g @ '', '' @ decimal b"


text \<open>
  The lines one role contributes to the \<^verbatim>\<open>:root\<close> block, to the dark block, to the
  \<^verbatim>\<open>@theme\<close> block and to the error console, and whether its pass through a loop ends the
  action; the lemmas on the loops are stated with them.
\<close>

definition role_aborts :: "chroma \<Rightarrow> string \<times> jsvalue \<Rightarrow> bool" where
  "role_aborts lib entry =
     (fst entry \<notin> set KEYS_TO_SKIP \<and> isl (createTonalPaletteFrom100 lib (snd entry)))"

definition palette_of_role :: "chroma \<Rightarrow> string \<times> jsvalue \<Rightarrow> palette option" where
  "palette_of_role lib entry =
     (if fst entry \<in> set KEYS_TO_SKIP then None
      else case createTonalPaletteFrom100 lib (snd entry) of
             Inl error \<Rightarrow> None
           | Inr result \<Rightarrow> snd result)"

definition errors_of_role :: "chroma \<Rightarrow> string \<times> jsvalue \<Rightarrow> log_entry list" where
  "errors_of_role lib entry =
     (if fst entry \<in> set KEYS_TO_SKIP then []
      else case createTonalPaletteFrom100 lib (snd entry) of
             Inl error \<Rightarrow> []
           | Inr result \<Rightarrow> fst result)"

definition shade_rgb :: "palette \<Rightarrow> nat \<Rightarrow> string" where
  "shade_rgb pal shade = hexToRgbValues (get_property pal shade)"

definition root_entries :: "chroma \<Rightarrow> string \<times> jsvalue \<Rightarrow> string list" where
  "root_entries lib entry =
     [light_comment (toKebabCase (fst entry)),
      light_base_decl (toKebabCase (fst entry)) (hexToRgbValues (snd entry))]
     @ (case palette_of_role lib entry of
          None \<Rightarrow> []
        | Some pal \<Rightarrow>
            map (\<lambda>shade. light_shade_decl (toKebabCase (fst entry)) shade (shade_rgb pal shade))
              (forin_keys pal))"

definition dark_entries :: "chroma \<Rightarrow> string \<times> jsvalue \<Rightarrow> string list" where
  "dark_entries lib entry =
     [dark_comment (toKebabCase (fst entry)),
      dark_base_decl (toKebabCase (fst entry)) (hexToRgbValues (snd entry))]
     @ (case palette_of_role lib entry of
          None \<Rightarrow> []
        | Some pal \<Rightarrow>
            map (\<lambda>shade. dark_shade_decl (toKebabCase (fst entry)) shade (shade_rgb pal shade))
              (forin_keys pal))"

definition theme_entries :: "chroma \<Rightarrow> string \<times> jsvalue \<Rightarrow> string list" where
  "theme_entries lib entry =
     [theme_comment (toKebabCase (fst entry)), theme_base_decl (toKebabCase (fst entry))]
     @ (case palette_of_role lib entry of
          None \<Rightarrow> []
        | Some pal \<Rightarrow> map (theme_shade_decl (toKebabCase (fst entry))) (forin_keys pal))"

section \<open>A stand-in for the colour library\<close>

text \<open>
  To run the model on concrete inputs the library parameter needs a value. This stand-in
  knows the colours written as \<^verbatim>\<open>#\<close> and six hexadecimal digits and the colour name
  \<^verbatim>\<open>red\<close>, and the mode \<^verbatim>\<open>lch\<close>; it throws on any other end of a scale and on any other mode.
  Its samples are evenly spaced over the part of the scale that the padding leaves, the
  first at the left end of that part and the last at its right end. It blends the three
  bytes of the two ends linearly, which is not the interpolation in LCh of the real
  library: the theorems hold for every library, and this one only shows that their
  hypotheses can be met.
\<close>

fun colour_bytes :: "jsvalue \<Rightarrow> nat list option" where
  "colour_bytes (JStr s) =
     (if s = ''red'' then Some [255, 0, 0]
      else if length s = 7 \<and> take 1 s = ''#'' \<and> list_all is_hex_digit (drop 1 s)
      then Some [byte_of (s ! 1) (s ! 2), byte_of (s ! 3) (s ! 4), byte_of (s ! 5) (s ! 6)]
      else None)"
| "colour_bytes v = None"

definition two_hex_digits :: "nat \<Rightarrow> string" where
  "two_hex_digits n = [''0123456789abcdef'' ! (n div 16), ''0123456789abcdef'' ! (n mod 16)]"

definition sample_position :: "(real \<times> real) option \<Rightarrow> nat \<Rightarrow> nat \<Rightarrow> real" where
  "sample_position pad n i =
     (case pad of
        None \<Rightarrow> real i / real (n - 1)
      | Some (l, r) \<Rightarrow> l + (real i / real (n - 1)) * (1 - l - r))"

definition blend :: "real \<Rightarrow> nat \<Rightarrow> nat \<Rightarrow> nat" where
  "blend t a b = nat \<lfloor>real a + t * (real b - real a) + 1 / 2\<rfloor>"

definition demo_chroma :: chroma where
  "demo_chroma sc n =
     (if mode sc \<noteq> ''lch'' then Inl (Thrown ''interpolation mode is not defined'')
      else case map colour_bytes (endpoints sc) of
             [Some a, Some b] \<Rightarrow>
               Inr (map (\<lambda>i. JStr (CHR ''#'' # concat (map2
                      (\<lambda>x y. two_hex_digits (blend (sample_position (padding sc) n i) x y)) a b)))
                    [0 ..< n])
           | _ \<Rightarrow> Inl (Thrown ''unknown format''))"

section \<open>Concrete inputs\<close>

text \<open>The palette the stand-in library gives for the base colour \<^verbatim>\<open>#6750A4\<close>.\<close>

definition demo_palette :: palette where
  "demo_palette =
     [(50, JStr ''#b3a8d2''), (100, JStr ''#6750A4''), (200, JStr ''#57448a''),
      (300, JStr ''#503f7f''), (400, JStr ''#493a74''), (500, JStr ''#423469''),
      (600, JStr ''#3c2f5d''), (700, JStr ''#352a52''), (800, JStr ''#2e2547''),
      (900, JStr ''#27203c''), (950, JStr ''#211b31'')]"

text \<open>The palette it gives for \<^verbatim>\<open>#D0BCFF\<close>.\<close>

definition demo_dark_palette :: palette where
  "demo_dark_palette =
     [(50, JStr ''#e8deff''), (100, JStr ''#D0BCFF''), (200, JStr ''#ae9dd5''),
      (300, JStr ''#9f90c3''), (400, JStr ''#9183b2''), (500, JStr ''#8376a0''),
      (600, JStr ''#74698e''), (700, JStr ''#665d7d''), (800, JStr ''#57506b''),
      (900, JStr ''#49435a''), (950, JStr ''#3b3648'')]"

text \<open>The state in which nothing has been emitted yet.\<close>

definition nothing_emitted :: emitted where
  "nothing_emitted = \<lparr>cssRawVarsOutput = [], themeRegistrationOutput = [], console_error = []\<rparr>"

text \<open>The theme of the repository's README.\<close>

definition readme_theme :: schemes where
  "readme_theme =
     \<lparr>light = [(''primary'', JStr ''#6750A4''), (''surface'', JStr ''#FFFBFE'')],
      dark = [(''primary'', JStr ''#D0BCFF''), (''surface'', JStr ''#1C1B1F'')]\<rparr>"


definition aborting_theme :: schemes where
  "aborting_theme =
     \<lparr>light = [(''primary'', JObject [(''toString'', JNum 1)]), (''secondary'', JStr ''#6750A4'')],
      dark = []\<rparr>"

section \<open>The palette\<close>

lemma upt_11: "[0 ..< 11] = [0, 1, 2, 3, 4, 5, 6, 7, 8, 9, 10]"
  by (simp add: upt_rec)

lemma length_shades: "length shades = 11"
  by (simp add: shades_def)

lemma fill_palette_eq:
  "fill_palette gs = zip shades (map (at_index gs) [0, 1, 2, 3, 4, 5, 6, 7, 8, 9, 10])"
  unfolding fill_palette_def length_shades upt_11 by (simp add: shades_def)

lemma forin_keys_fill_palette: "forin_keys (fill_palette gs) = shades"
  by (simp add: fill_palette_eq forin_keys_def shades_def)

lemma get_100_fill_palette: "get_property (fill_palette (a # b # gs)) 100 = b"
  by (simp add: fill_palette_eq get_property_def shades_def at_index_def)

lemma map_of_100_fill_palette: "map_of (fill_palette (a # b # gs)) 100 = Some b"
  by (simp add: fill_palette_eq shades_def at_index_def)

lemma tl_as_nth:
  assumes "length (ds :: 'a list) = 10"
  shows "tl ds = [ds ! 1, ds ! 2, ds ! 3, ds ! 4, ds ! 5, ds ! 6, ds ! 7, ds ! 8, ds ! 9]"
proof -
  have "ds = map (nth ds) [0 ..< 10]"
    using assms map_nth [of ds] by simp
  also have "[0 ..< 10] = [0, 1, 2, 3, 4, 5, 6, 7, 8, 9 :: nat]"
    by (simp add: upt_rec)
  finally have "ds = [ds ! 0, ds ! 1, ds ! 2, ds ! 3, ds ! 4, ds ! 5, ds ! 6, ds ! 7, ds ! 8, ds ! 9]"
    by simp
  then have "tl ds = tl [ds ! 0, ds ! 1, ds ! 2, ds ! 3, ds ! 4, ds ! 5, ds ! 6, ds ! 7, ds ! 8, ds ! 9]"
    by simp
  then show ?thesis by simp
qed

lemma generated_colors:
  assumes "length ls = 3" "length ds = 10"
  shows "map (at_index ([at_index ls 1, base] @ drop 1 ds)) [0, 1, 2, 3, 4, 5, 6, 7, 8, 9, 10]
         = ls ! 1 # base # tl ds"
  using assms by (simp add: tl_as_nth at_index_def nth_append eval_nat_numeral)

lemma palette_result_cases:
  "createTonalPaletteFrom100 lib base = Inr (errs, Some pal) \<Longrightarrow>
   \<exists>ls ds. lib (lighter_scale base) 3 = Inr ls \<and> lib (darker_scale base) 10 = Inr ds
     \<and> errs = [] \<and> pal = fill_palette ([at_index ls 1, base] @ drop 1 ds)"
  by (auto simp: createTonalPaletteFrom100_def catch_block_def split: sum.splits if_splits)

lemma palette_abort_cases:
  "createTonalPaletteFrom100 lib base = Inl e \<Longrightarrow> e = type_error \<and> to_string_throws base"
  by (auto simp: createTonalPaletteFrom100_def catch_block_def split: sum.splits if_splits)

lemma palette_from_samples:
  assumes "lib (lighter_scale base) 3 = Inr ls" and "length ls = 3"
    and "lib (darker_scale base) 10 = Inr ds" and "length ds = 10"
  shows "createTonalPaletteFrom100 lib base
           = Inr ([], Some [(50, ls ! 1), (100, base), (200, ds ! 1), (300, ds ! 2), (400, ds ! 3),
               (500, ds ! 4), (600, ds ! 5), (700, ds ! 6), (800, ds ! 7), (900, ds ! 8),
               (950, ds ! 9)])"
proof -
  have "createTonalPaletteFrom100 lib base
        = Inr ([], Some (fill_palette ([at_index ls 1, base] @ drop 1 ds)))"
    using assms(1,3) by (simp add: createTonalPaletteFrom100_def)
  also have "fill_palette ([at_index ls 1, base] @ drop 1 ds) = zip shades (ls ! 1 # base # tl ds)"
    unfolding fill_palette_eq generated_colors [OF assms(2,4)] ..
  also have "\<dots> = [(50, ls ! 1), (100, base), (200, ds ! 1), (300, ds ! 2), (400, ds ! 3),
               (500, ds ! 4), (600, ds ! 5), (700, ds ! 6), (800, ds ! 7), (900, ds ! 8),
               (950, ds ! 9)]"
    by (simp add: tl_as_nth [OF assms(4)] shades_def)
  finally show ?thesis .
qed

lemma upt_3: "[0 ..< 3] = [0, 1, 2]"
  by (simp add: upt_rec)

lemma upt_10: "[0 ..< 10] = [0, 1, 2, 3, 4, 5, 6, 7, 8, 9]"
  by (simp add: upt_rec)

lemmas demo_chroma_simps =
  is_hex_digit_def byte_of_def digit_of_def hex_digit_table_def upt_rec blend_def
  sample_position_def two_hex_digits_def lighter_scale_def darker_scale_def

lemma demo_lighter_6750A4:
  "demo_chroma (lighter_scale (JStr ''#6750A4'')) 3
     = Inr [JStr ''#ffffff'', JStr ''#b3a8d2'', JStr ''#6750a4'']"
  unfolding demo_chroma_def upt_3 by (simp add: demo_chroma_simps)

lemma demo_darker_6750A4:
  "demo_chroma (darker_scale (JStr ''#6750A4'')) 10
     = Inr [JStr ''#5e4995'', JStr ''#57448a'', JStr ''#503f7f'', JStr ''#493a74'',
         JStr ''#423469'', JStr ''#3c2f5d'', JStr ''#352a52'', JStr ''#2e2547'', JStr ''#27203c'',
         JStr ''#211b31'']"
  unfolding demo_chroma_def upt_10 by (simp add: demo_chroma_simps)

lemma demo_lighter_D0BCFF:
  "demo_chroma (lighter_scale (JStr ''#D0BCFF'')) 3
     = Inr [JStr ''#ffffff'', JStr ''#e8deff'', JStr ''#d0bcff'']"
  unfolding demo_chroma_def upt_3 by (simp add: demo_chroma_simps)

lemma demo_darker_D0BCFF:
  "demo_chroma (darker_scale (JStr ''#D0BCFF'')) 10
     = Inr [JStr ''#bcaae7'', JStr ''#ae9dd5'', JStr ''#9f90c3'', JStr ''#9183b2'',
         JStr ''#8376a0'', JStr ''#74698e'', JStr ''#665d7d'', JStr ''#57506b'', JStr ''#49435a'',
         JStr ''#3b3648'']"
  unfolding demo_chroma_def upt_10 by (simp add: demo_chroma_simps)



lemma demo_lighter_not_a_colour:
  "demo_chroma (lighter_scale (JStr ''not-a-colour'')) 3 = Inl (Thrown ''unknown format'')"
  unfolding demo_chroma_def by (simp add: demo_chroma_simps)

lemma demo_palette_generated:
  "createTonalPaletteFrom100 demo_chroma (JStr ''#6750A4'') = Inr ([], Some demo_palette)"
  using palette_from_samples [OF demo_lighter_6750A4 _ demo_darker_6750A4]
  by (simp add: demo_palette_def)

lemma demo_dark_palette_generated:
  "createTonalPaletteFrom100 demo_chroma (JStr ''#D0BCFF'') = Inr ([], Some demo_dark_palette)"
  using palette_from_samples [OF demo_lighter_D0BCFF _ demo_darker_D0BCFF]
  by (simp add: demo_dark_palette_def)

lemma demo_failure:
  "createTonalPaletteFrom100 demo_chroma (JStr ''not-a-colour'')
     = Inr ([\<lparr>about = JStr ''not-a-colour'', thrown = Thrown ''unknown format''\<rparr>], None)"
  by (simp add: createTonalPaletteFrom100_def demo_lighter_not_a_colour catch_block_def)

text \<open>
  Claim C1. Whenever palette generation succeeds, the palette binds shade 100 to the base
  colour it was given, unchanged: the very same value, so for a string the same characters,
  with its \<^verbatim>\<open>#\<close> and its letter case.
\<close>

theorem shade_100_is_base:
  assumes "createTonalPaletteFrom100 lib base = Inr (errs, Some pal)"
  shows "map_of pal 100 = Some base \<and> get_property pal 100 = base"
  using palette_result_cases [OF assms]
  by (auto simp: get_100_fill_palette map_of_100_fill_palette)

theorem shade_100_is_base_witness:
  "createTonalPaletteFrom100 demo_chroma (JStr ''#6750A4'') = Inr ([], Some demo_palette)
   \<and> map_of demo_palette 100 = Some (JStr ''#6750A4'')
   \<and> get_property demo_palette 100 = JStr ''#6750A4''"
  using shade_100_is_base [OF demo_palette_generated] demo_palette_generated by simp




section \<open>Hexadecimal colours to decimal triples\<close>

lemma hex_digit_facts:
  assumes "is_hex_digit c"
  shows "hex_digit_value c = Some (digit_of c)" "\<not> is_white_space c" "c \<noteq> CHR ''+''"
    "c \<noteq> CHR ''-''" "c \<noteq> CHR ''x''" "c \<noteq> CHR ''X''" "c \<noteq> CHR ''#''" "digit_of c < 16"
  using assms
  by (auto simp: is_hex_digit_def hex_digit_value_def digit_of_def hex_digit_table_def
      is_white_space_def upt_rec)

lemma parse_byte:
  assumes "is_hex_digit a" "is_hex_digit b"
  shows "parseInt16 [a, b] = Some (int (byte_of a b))"
  using hex_digit_facts [OF assms(1)] hex_digit_facts [OF assms(2)]
  by (simp add: parseInt16_def strip_hex_prefix_def byte_of_def)

lemma byte_of_le: "is_hex_digit a \<Longrightarrow> is_hex_digit b \<Longrightarrow> byte_of a b \<le> 255"
  using hex_digit_facts(8) [of a] hex_digit_facts(8) [of b] by (simp add: byte_of_def)

lemma rgb_of_clean_six:
  assumes "is_hex_digit a" "is_hex_digit b" "is_hex_digit c"
    and "is_hex_digit d" "is_hex_digit e" "is_hex_digit f"
  shows "rgb_of_clean [a, b, c, d, e, f] = rgb_text (byte_of a b) (byte_of c d) (byte_of e f)"
  using assms by (simp add: rgb_of_clean_def substring_def parse_byte rgb_text_def)

lemma rgb_of_clean_three: "rgb_of_clean [a, b, c] = rgb_of_clean [a, a, b, b, c, c]"
  by (simp add: rgb_of_clean_def double_chars_def)

lemma hexToRgbValues_string:
  "h \<noteq> [] \<Longrightarrow> hexToRgbValues (JStr h) = rgb_of_clean (strip_hash h)"
  by (simp add: hexToRgbValues_def)

text \<open>
  The inputs for which the function falls back to black: a value that is not a string, the
  empty string, and a string whose length without a leading \<^verbatim>\<open>#\<close> is neither 3 nor 6.
\<close>

lemma hexToRgbValues_fallback:
  "typeof v \<noteq> ''string'' \<Longrightarrow> hexToRgbValues v = ''0, 0, 0''"
  "hexToRgbValues (JStr []) = ''0, 0, 0''"
  "length (strip_hash h) \<noteq> 3 \<Longrightarrow> length (strip_hash h) \<noteq> 6 \<Longrightarrow>
     hexToRgbValues (JStr h) = ''0, 0, 0''"
  by (simp_all add: hexToRgbValues_def rgb_of_clean_def)

lemma hexToRgbValues_fallback_examples:
  "hexToRgbValues (JStr []) = ''0, 0, 0''"
  "hexToRgbValues JNull = ''0, 0, 0''"
  "hexToRgbValues (JStr ''12'') = ''0, 0, 0''"
  using hexToRgbValues_fallback(3) [of "''12''"]
  by (simp_all add: hexToRgbValues_fallback strip_hash_def)

text \<open>
  Claim C2. The claim has every malformed colour value mapped to \<^verbatim>\<open>0, 0, 0\<close>. A string of
  six code units that are not hexadecimal digits passes the length test; \<^verbatim>\<open>parseInt\<close> then
  returns \<^verbatim>\<open>NaN\<close> for each pair instead of throwing, the \<^verbatim>\<open>catch\<close> branch is never entered,
  and the function returns \<^verbatim>\<open>NaN, NaN, NaN\<close>.
\<close>

theorem hexToRgbValues_not_black_on_non_digits:
  "hexToRgbValues (JStr ''zzzzzz'') = ''NaN, NaN, NaN''"
  by code_simp

text \<open>
  Claim C6. For six hexadecimal digits, with or without a leading \<^verbatim>\<open>#\<close>, the function
  returns the three bytes they denote, in decimal, separated by a comma and a space; each
  byte is at most 255. Three digits give what the six digits obtained by doubling each of
  them give; so \<^verbatim>\<open>f53\<close> gives what \<^verbatim>\<open>ff5533\<close> gives.
\<close>

theorem hexToRgbValues_bytes:
  assumes "is_hex_digit a" "is_hex_digit b" "is_hex_digit c"
    and "is_hex_digit d" "is_hex_digit e" "is_hex_digit f"
  shows "hexToRgbValues (JStr [a, b, c, d, e, f])
           = rgb_text (byte_of a b) (byte_of c d) (byte_of e f)
    \<and> hexToRgbValues (JStr (CHR ''#'' # [a, b, c, d, e, f]))
           = rgb_text (byte_of a b) (byte_of c d) (byte_of e f)
    \<and> byte_of a b \<le> 255 \<and> byte_of c d \<le> 255 \<and> byte_of e f \<le> 255
    \<and> hexToRgbValues (JStr [a, b, c]) = hexToRgbValues (JStr [a, a, b, b, c, c])
    \<and> hexToRgbValues (JStr (CHR ''#'' # [a, b, c])) = hexToRgbValues (JStr [a, a, b, b, c, c])
    \<and> hexToRgbValues (JStr ''f53'') = hexToRgbValues (JStr ''ff5533'')"
  using assms hex_digit_facts(7) [OF assms(1)]
  by (simp add: hexToRgbValues_string strip_hash_def rgb_of_clean_six rgb_of_clean_three byte_of_le)

theorem hexToRgbValues_bytes_witness:
  "hexToRgbValues (JStr ''6750A4'') = ''103, 80, 164''
   \<and> hexToRgbValues (JStr ''#6750A4'') = ''103, 80, 164''
   \<and> hexToRgbValues (JStr ''675'') = hexToRgbValues (JStr ''667755'')"
  using hexToRgbValues_bytes [of "CHR ''6''" "CHR ''7''" "CHR ''5''" "CHR ''0''" "CHR ''A''" "CHR ''4''"]
  by (simp add: is_hex_digit_def rgb_text_def byte_of_def digit_of_def hex_digit_table_def
      upt_rec decimal.simps digit_char_def)

section \<open>The emitted lines\<close>

text \<open>
  Each pass through a loop either ends the action or appends to the arrays; whether it ends
  the action and what it appends depend on the role alone, not on what was emitted before.
\<close>

lemma foldl_push_css:
  "foldl (\<lambda>st line. push_css line st) st ls = st\<lparr>cssRawVarsOutput := cssRawVarsOutput st @ ls\<rparr>"
  by (induction ls arbitrary: st) (simp_all add: push_css_def)

lemma foldl_light_shade:
  "foldl (light_shade k pal) st ks =
     st\<lparr>cssRawVarsOutput := cssRawVarsOutput st
          @ map (\<lambda>shade. light_shade_decl k shade (shade_rgb pal shade)) ks,
        themeRegistrationOutput := themeRegistrationOutput st @ map (theme_shade_decl k) ks\<rparr>"
  by (induction ks arbitrary: st)
     (simp_all add: light_shade_def push_css_def push_theme_def shade_rgb_def)

lemma foldl_dark_shade:
  "foldl (dark_shade k pal) st ks =
     st\<lparr>cssRawVarsOutput := cssRawVarsOutput st
          @ map (\<lambda>shade. dark_shade_decl k shade (shade_rgb pal shade)) ks\<rparr>"
  by (induction ks arbitrary: st) (simp_all add: dark_shade_def push_css_def shade_rgb_def)

lemma abort_is_type_error:
  "createTonalPaletteFrom100 lib v = Inl e \<Longrightarrow> e = type_error"
  by (simp add: palette_abort_cases)

lemma light_role_eq:
  "light_role lib st entry =
     (if role_aborts lib entry then Inl type_error
      else Inr (st\<lparr>cssRawVarsOutput := cssRawVarsOutput st @ root_entries lib entry,
        themeRegistrationOutput := themeRegistrationOutput st @ theme_entries lib entry,
        console_error := console_error st @ errors_of_role lib entry\<rparr>))"
proof (cases "createTonalPaletteFrom100 lib (snd entry)")
  case (Inl e)
  then show ?thesis
    using abort_is_type_error [OF Inl]
    by (simp add: Let_def light_role_def root_entries_def theme_entries_def errors_of_role_def
        palette_of_role_def role_aborts_def push_css_def push_theme_def)
next
  case (Inr result)
  then show ?thesis
    by (cases result)
       (simp add: Let_def light_role_def root_entries_def theme_entries_def errors_of_role_def
         palette_of_role_def role_aborts_def foldl_light_shade push_css_def push_theme_def
         log_errors_def split: option.splits)
qed

lemma dark_role_eq:
  "dark_role lib st entry =
     (if role_aborts lib entry then Inl type_error
      else Inr (st\<lparr>cssRawVarsOutput := cssRawVarsOutput st @ dark_entries lib entry,
        console_error := console_error st @ errors_of_role lib entry\<rparr>))"
proof (cases "createTonalPaletteFrom100 lib (snd entry)")
  case (Inl e)
  then show ?thesis
    using abort_is_type_error [OF Inl]
    by (simp add: Let_def dark_role_def dark_entries_def errors_of_role_def
        palette_of_role_def role_aborts_def push_css_def)
next
  case (Inr result)
  then show ?thesis
    by (cases result)
       (simp add: Let_def dark_role_def dark_entries_def errors_of_role_def
         palette_of_role_def role_aborts_def foldl_dark_shade push_css_def
         log_errors_def split: option.splits)
qed

lemma light_loop_eq:
  "for_each_role (light_role lib) st es =
     (if list_ex (role_aborts lib) es then Inl type_error
      else Inr (st\<lparr>cssRawVarsOutput := cssRawVarsOutput st @ concat (map (root_entries lib) es),
        themeRegistrationOutput := themeRegistrationOutput st @ concat (map (theme_entries lib) es),
        console_error := console_error st @ concat (map (errors_of_role lib) es)\<rparr>))"
  by (induction es arbitrary: st) (simp_all add: light_role_eq)

lemma dark_loop_eq:
  "for_each_role (dark_role lib) st es =
     (if list_ex (role_aborts lib) es then Inl type_error
      else Inr (st\<lparr>cssRawVarsOutput := cssRawVarsOutput st @ concat (map (dark_entries lib) es),
        console_error := console_error st @ concat (map (errors_of_role lib) es)\<rparr>))"
  by (induction es arbitrary: st) (simp_all add: dark_role_eq)

lemma action_eq:
  "action lib sch =
     (if list_ex (role_aborts lib) (light sch) \<or> list_ex (role_aborts lib) (dark sch)
      then Inl type_error
      else Inr \<lparr>cssRawVarsOutput = root_header @ concat (map (root_entries lib) (light sch))
         @ dark_header @ concat (map (dark_entries lib) (dark sch)) @ dark_footer,
      themeRegistrationOutput = ''@theme {'' # concat (map (theme_entries lib) (light sch)) @ [''}''],
      console_error = concat (map (errors_of_role lib) (light sch))
         @ concat (map (errors_of_role lib) (dark sch))\<rparr>)"
  by (simp add: Let_def action_def foldl_push_css light_loop_eq dark_loop_eq push_theme_def)


lemma entries_without_palette:
  assumes "palette_of_role lib (role, v) = None"
  shows "root_entries lib (role, v)
           = [light_comment (toKebabCase role), light_base_decl (toKebabCase role) (hexToRgbValues v)]"
    and "dark_entries lib (role, v)
           = [dark_comment (toKebabCase role), dark_base_decl (toKebabCase role) (hexToRgbValues v)]"
    and "theme_entries lib (role, v)
           = [theme_comment (toKebabCase role), theme_base_decl (toKebabCase role)]"
  using assms by (simp_all add: root_entries_def dark_entries_def theme_entries_def)

lemma entries_with_palette:
  assumes "role \<notin> set KEYS_TO_SKIP"
    and "createTonalPaletteFrom100 lib v = Inr (errs, Some pal)"
  shows "root_entries lib (role, v)
           = [light_comment (toKebabCase role), light_base_decl (toKebabCase role) (hexToRgbValues v)]
             @ map (\<lambda>shade. light_shade_decl (toKebabCase role) shade (shade_rgb pal shade))
                 [50, 100, 200, 300, 400, 500, 600, 700, 800, 900, 950]"
    and "dark_entries lib (role, v)
           = [dark_comment (toKebabCase role), dark_base_decl (toKebabCase role) (hexToRgbValues v)]
             @ map (\<lambda>shade. dark_shade_decl (toKebabCase role) shade (shade_rgb pal shade))
                 [50, 100, 200, 300, 400, 500, 600, 700, 800, 900, 950]"
    and "theme_entries lib (role, v)
           = [theme_comment (toKebabCase role), theme_base_decl (toKebabCase role)]
             @ map (theme_shade_decl (toKebabCase role))
                 [50, 100, 200, 300, 400, 500, 600, 700, 800, 900, 950]"
    and "errors_of_role lib (role, v) = []"
    and "\<not> role_aborts lib (role, v)"
proof -
  from palette_result_cases [OF assms(2)]
  have errs: "errs = []" and keys: "forin_keys pal = shades"
    by (auto simp: forin_keys_fill_palette)
  have pal: "palette_of_role lib (role, v) = Some pal"
    using assms by (simp add: palette_of_role_def)
  have order: "forin_keys pal = [50, 100, 200, 300, 400, 500, 600, 700, 800, 900, 950]"
    using keys by (simp add: shades_def)
  show "root_entries lib (role, v)
           = [light_comment (toKebabCase role), light_base_decl (toKebabCase role) (hexToRgbValues v)]
             @ map (\<lambda>shade. light_shade_decl (toKebabCase role) shade (shade_rgb pal shade))
                 [50, 100, 200, 300, 400, 500, 600, 700, 800, 900, 950]"
    by (simp add: root_entries_def pal order)
  show "dark_entries lib (role, v)
           = [dark_comment (toKebabCase role), dark_base_decl (toKebabCase role) (hexToRgbValues v)]
             @ map (\<lambda>shade. dark_shade_decl (toKebabCase role) shade (shade_rgb pal shade))
                 [50, 100, 200, 300, 400, 500, 600, 700, 800, 900, 950]"
    by (simp add: dark_entries_def pal order)
  show "theme_entries lib (role, v)
           = [theme_comment (toKebabCase role), theme_base_decl (toKebabCase role)]
             @ map (theme_shade_decl (toKebabCase role))
                 [50, 100, 200, 300, 400, 500, 600, 700, 800, 900, 950]"
    by (simp add: theme_entries_def pal order)
  show "errors_of_role lib (role, v) = []"
    using assms errs by (simp add: errors_of_role_def)
  show "\<not> role_aborts lib (role, v)"
    using assms by (simp add: role_aborts_def)
qed

lemma palette_of_skipped_role:
  "role \<in> set KEYS_TO_SKIP \<Longrightarrow> palette_of_role lib (role, v) = None"
  "role \<in> set KEYS_TO_SKIP \<Longrightarrow> errors_of_role lib (role, v) = []"
  "role \<in> set KEYS_TO_SKIP \<Longrightarrow> \<not> role_aborts lib (role, v)"
  by (simp_all add: palette_of_role_def errors_of_role_def role_aborts_def)

lemma role_cases [case_names skipped aborted failed generated]:
  obtains "role \<in> set KEYS_TO_SKIP"
  | "role \<notin> set KEYS_TO_SKIP" and "createTonalPaletteFrom100 lib v = Inl type_error"
  | errs where "role \<notin> set KEYS_TO_SKIP" and "createTonalPaletteFrom100 lib v = Inr (errs, None)"
  | errs pal where "role \<notin> set KEYS_TO_SKIP"
      and "createTonalPaletteFrom100 lib v = Inr (errs, Some pal)"
proof (cases "role \<in> set KEYS_TO_SKIP")
  case True
  then show ?thesis by (rule that(1))
next
  case False
  show ?thesis
  proof (cases "createTonalPaletteFrom100 lib v")
    case (Inl e)
    with abort_is_type_error [OF Inl] False show ?thesis
      by (auto intro: that(2))
  next
    case (Inr result)
    then show ?thesis
      using False by (cases result; cases "snd result") (auto intro: that(3) that(4))
  qed
qed

lemma palette_of_failed_role:
  "createTonalPaletteFrom100 lib v = Inl e \<Longrightarrow> palette_of_role lib (role, v) = None"
  "createTonalPaletteFrom100 lib v = Inr (errs, None) \<Longrightarrow> palette_of_role lib (role, v) = None"
  by (simp_all add: palette_of_role_def)

lemmas template_defs =
  light_comment_def light_base_decl_def light_shade_decl_def theme_comment_def theme_base_decl_def
  theme_shade_decl_def dark_comment_def dark_base_decl_def dark_shade_decl_def

lemma action_completed:
  assumes "action lib sch = Inr out"
  shows "out = \<lparr>cssRawVarsOutput = root_header @ concat (map (root_entries lib) (light sch))
         @ dark_header @ concat (map (dark_entries lib) (dark sch)) @ dark_footer,
      themeRegistrationOutput = ''@theme {'' # concat (map (theme_entries lib) (light sch)) @ [''}''],
      console_error = concat (map (errors_of_role lib) (light sch))
         @ concat (map (errors_of_role lib) (dark sch))\<rparr>"
  using assms by (simp add: action_eq split: if_splits)

lemma map_entries:
  "map (theme_entries lib) es = map (\<lambda>(role, v). theme_entries lib (role, v)) es"
  "map (root_entries lib) es = map (\<lambda>(role, v). root_entries lib (role, v)) es"
  "map (dark_entries lib) es = map (\<lambda>(role, v). dark_entries lib (role, v)) es"
  by simp_all

lemma decimal_shades:
  "map decimal [50, 100, 200, 300, 400, 500, 600, 700, 800, 900, 950]
     = [''50'', ''100'', ''200'', ''300'', ''400'', ''500'', ''600'', ''700'', ''800'', ''900'', ''950'']"
  by code_simp

lemma rgb_demo_palette:
  "map (\<lambda>shade. hexToRgbValues (get_property demo_palette shade))
       [50, 100, 200, 300, 400, 500, 600, 700, 800, 900, 950]
     = [''179, 168, 210'', ''103, 80, 164'', ''87, 68, 138'', ''80, 63, 127'', ''73, 58, 116'',
        ''66, 52, 105'', ''60, 47, 93'', ''53, 42, 82'', ''46, 37, 71'', ''39, 32, 60'',
        ''33, 27, 49'']"
  by code_simp

lemma rgb_demo_dark_palette:
  "map (\<lambda>shade. hexToRgbValues (get_property demo_dark_palette shade))
       [50, 100, 200, 300, 400, 500, 600, 700, 800, 900, 950]
     = [''232, 222, 255'', ''208, 188, 255'', ''174, 157, 213'', ''159, 144, 195'',
        ''145, 131, 178'', ''131, 118, 160'', ''116, 105, 142'', ''102, 93, 125'', ''87, 80, 107'',
        ''73, 67, 90'', ''59, 54, 72'']"
  by code_simp

lemma kebab_examples:
  "toKebabCase ''primary'' = ''primary''"
  "toKebabCase ''secondary'' = ''secondary''"
  "toKebabCase ''surface'' = ''surface''"
  "toKebabCase ''surfaceTint'' = ''surface-tint''"
  by code_simp+

lemma rgb_examples:
  "hexToRgbValues (JStr ''#6750A4'') = ''103, 80, 164''"
  "hexToRgbValues (JStr ''#FFFBFE'') = ''255, 251, 254''"
  "hexToRgbValues (JStr ''#D0BCFF'') = ''208, 188, 255''"
  "hexToRgbValues (JStr ''#1C1B1F'') = ''28, 27, 31''"
  "hexToRgbValues (JStr ''not-a-colour'') = ''0, 0, 0''"
  by code_simp+

lemma skip_examples:
  "''primary'' \<notin> set KEYS_TO_SKIP" "''secondary'' \<notin> set KEYS_TO_SKIP"
  "''surface'' \<in> set KEYS_TO_SKIP"
  by (simp_all add: KEYS_TO_SKIP_def)

lemma readme_theme_completes:
  "action demo_chroma readme_theme =
     Inr \<lparr>cssRawVarsOutput = root_header @ concat (map (root_entries demo_chroma) (light readme_theme))
         @ dark_header @ concat (map (dark_entries demo_chroma) (dark readme_theme)) @ dark_footer,
      themeRegistrationOutput = ''@theme {''
         # concat (map (theme_entries demo_chroma) (light readme_theme)) @ [''}''],
      console_error = []\<rparr>"
  by (simp add: action_eq readme_theme_def role_aborts_def errors_of_role_def skip_examples
      demo_palette_generated demo_dark_palette_generated)




text \<open>
  Claim C8. For a role named background, surface, surfaceTint, shadow, scrim, outline,
  outlineVariant, surfaceDim or surfaceBright, a pass through the light loop appends the
  comment and the declaration of the base colour to the \<^verbatim>\<open>:root\<close> lines and to the
  \<^verbatim>\<open>@theme\<close> lines, and a pass through the dark loop appends the comment and the
  declaration of the base colour to the dark block; neither appends a shade declaration.
\<close>

theorem skipped_roles_have_no_shades:
  assumes "role \<in> {''background'', ''surface'', ''surfaceTint'', ''shadow'', ''scrim'',
      ''outline'', ''outlineVariant'', ''surfaceDim'', ''surfaceBright''}"
  shows "light_role lib st (role, colorHex) =
           Inr (st\<lparr>cssRawVarsOutput := cssRawVarsOutput st
                @ [light_comment (toKebabCase role),
                   light_base_decl (toKebabCase role) (hexToRgbValues colorHex)],
              themeRegistrationOutput := themeRegistrationOutput st
                @ [theme_comment (toKebabCase role), theme_base_decl (toKebabCase role)]\<rparr>)
    \<and> dark_role lib st (role, colorHex) =
           Inr (st\<lparr>cssRawVarsOutput := cssRawVarsOutput st
                @ [dark_comment (toKebabCase role),
                   dark_base_decl (toKebabCase role) (hexToRgbValues colorHex)]\<rparr>)"
proof -
  have skip: "role \<in> set KEYS_TO_SKIP"
    using assms by (simp add: KEYS_TO_SKIP_def)
  show ?thesis
    by (simp add: light_role_eq dark_role_eq palette_of_skipped_role [OF skip]
        entries_without_palette [OF palette_of_skipped_role(1) [OF skip]])
qed

theorem skipped_roles_have_no_shades_witness:
  "light_role demo_chroma nothing_emitted (''surfaceTint'', JStr ''#6750A4'') =
     Inr \<lparr>cssRawVarsOutput = [LF # ''  /* --- surface tint --- */'',
          ''  --md-sys-color-surface-tint: 103, 80, 164; /* Locked Color */''],
      themeRegistrationOutput = [LF # ''  /* surface tint */'',
          ''  --color-surface-tint: var(--md-sys-color-surface-tint); /* Locked Color */''],
      console_error = []\<rparr>
   \<and> dark_role demo_chroma nothing_emitted (''surfaceTint'', JStr ''#6750A4'') =
     Inr \<lparr>cssRawVarsOutput = [LF # ''    /* --- surface tint --- */'',
          ''    --md-sys-color-surface-tint: 103, 80, 164; /* Locked Color */''],
      themeRegistrationOutput = [], console_error = []\<rparr>"
proof -
  have k: "toKebabCase ''surfaceTint'' = ''surface-tint''" by code_simp
  have h: "hexToRgbValues (JStr ''#6750A4'') = ''103, 80, 164''" by code_simp
  show ?thesis
    using skipped_roles_have_no_shades [of "''surfaceTint''" demo_chroma nothing_emitted "JStr ''#6750A4''"]
    by (simp add: k h nothing_emitted_def light_comment_def light_base_decl_def theme_comment_def
        theme_base_decl_def dark_comment_def dark_base_decl_def hyphens_to_spaces_def)
qed

text \<open>
  Claim C9. When the action completes, the \<^verbatim>\<open>@theme\<close> block is its opening line, then for
  each role of the light scheme the comment, the registration \<^verbatim>\<open>--color-<role>\<close> and, for a
  role outside the skip list whose palette was generated, the registrations
  \<^verbatim>\<open>--color-<role>-<shade>\<close> of the eleven shades, then the closing line; it is the same for
  every document with that light scheme, whatever its dark scheme. The declarations of the
  dark scheme, those of the shades included, stand in the raw lines between
  \<^verbatim>\<open>@media (prefers-color-scheme: dark) {\<close>, \<^verbatim>\<open>:root {\<close> and the two closing braces, after
  the \<^verbatim>\<open>:root\<close> block of the light scheme.
\<close>

theorem theme_block_registers_light_scheme_only:
  assumes "action lib sch = Inr out"
  shows "themeRegistrationOutput out =
      [''@theme {'']
      @ concat (map (\<lambda>(role, colorHex).
          [LF # ''  /* '' @ hyphens_to_spaces (toKebabCase role) @ '' */'',
           ''  --color-'' @ toKebabCase role @ '': var(--md-sys-color-''
             @ toKebabCase role @ ''); /* Locked Color */'']
          @ (if role \<in> set KEYS_TO_SKIP then []
             else case createTonalPaletteFrom100 lib colorHex of
                    Inr (errors, Some palette) \<Rightarrow>
                      map (\<lambda>shade. ''  --color-'' @ toKebabCase role @ ''-'' @ decimal shade
                             @ '': var(--md-sys-color-'' @ toKebabCase role @ ''-''
                             @ decimal shade @ '');'')
                        [50, 100, 200, 300, 400, 500, 600, 700, 800, 900, 950]
                  | _ \<Rightarrow> []))
          (light sch))
      @ [''}'']
    \<and> cssRawVarsOutput out =
      [''/* ================================================================== */'',
       ''/* MATERIAL DESIGN COLOR TOKENS (LIGHT & DARK)                  */'',
       ''/* ================================================================== */'' @ [LF],
       '':root {'']
      @ concat (map (\<lambda>(role, colorHex).
          [LF # ''  /* --- '' @ hyphens_to_spaces (toKebabCase role) @ '' --- */'',
           ''  --md-sys-color-'' @ toKebabCase role @ '': '' @ hexToRgbValues colorHex
             @ ''; /* Locked Color */'']
          @ (if role \<in> set KEYS_TO_SKIP then []
             else case createTonalPaletteFrom100 lib colorHex of
                    Inr (errors, Some palette) \<Rightarrow>
                      map (\<lambda>shade. ''  --md-sys-color-'' @ toKebabCase role @ ''-'' @ decimal shade
                             @ '': '' @ hexToRgbValues (get_property palette shade) @ '';'')
                        [50, 100, 200, 300, 400, 500, 600, 700, 800, 900, 950]
                  | _ \<Rightarrow> []))
          (light sch))
      @ [''}'' @ [LF], ''@media (prefers-color-scheme: dark) {'', ''  :root {'']
      @ concat (map (\<lambda>(role, colorHex).
          [LF # ''    /* --- '' @ hyphens_to_spaces (toKebabCase role) @ '' --- */'',
           ''    --md-sys-color-'' @ toKebabCase role @ '': '' @ hexToRgbValues colorHex
             @ ''; /* Locked Color */'']
          @ (if role \<in> set KEYS_TO_SKIP then []
             else case createTonalPaletteFrom100 lib colorHex of
                    Inr (errors, Some palette) \<Rightarrow>
                      map (\<lambda>shade. ''    --md-sys-color-'' @ toKebabCase role @ ''-'' @ decimal shade
                             @ '': '' @ hexToRgbValues (get_property palette shade) @ '';'')
                        [50, 100, 200, 300, 400, 500, 600, 700, 800, 900, 950]
                  | _ \<Rightarrow> []))
          (dark sch))
      @ [''  }'', ''}'' @ [LF]]
    \<and> (\<forall>sch' out'. action lib sch' = Inr out' \<and> light sch' = light sch
          \<longrightarrow> themeRegistrationOutput out' = themeRegistrationOutput out)"
proof -
  have theme_entries_literal:
    "theme_entries lib (role, v) =
          [LF # ''  /* '' @ hyphens_to_spaces (toKebabCase role) @ '' */'',
           ''  --color-'' @ toKebabCase role @ '': var(--md-sys-color-''
             @ toKebabCase role @ ''); /* Locked Color */'']
          @ (if role \<in> set KEYS_TO_SKIP then []
             else case createTonalPaletteFrom100 lib v of
                    Inr (errors, Some palette) \<Rightarrow>
                      map (\<lambda>shade. ''  --color-'' @ toKebabCase role @ ''-'' @ decimal shade
                             @ '': var(--md-sys-color-'' @ toKebabCase role @ ''-''
                             @ decimal shade @ '');'')
                        [50, 100, 200, 300, 400, 500, 600, 700, 800, 900, 950]
                  | _ \<Rightarrow> [])"
    for role v
  proof (cases rule: role_cases [where role = role and lib = lib and v = v])
    case skipped
    then show ?thesis
      by (simp add: entries_without_palette [OF palette_of_skipped_role(1)] template_defs)
  next
    case aborted
    then show ?thesis
      by (simp add: entries_without_palette [OF palette_of_failed_role(1)] template_defs)
  next
    case (failed errs)
    then show ?thesis
      by (simp add: entries_without_palette [OF palette_of_failed_role(2)] template_defs)
  next
    case (generated errs pal)
    then show ?thesis
      by (simp add: entries_with_palette(3) [OF generated] template_defs)
  qed
  have root_entries_literal:
    "root_entries lib (role, v) =
          [LF # ''  /* --- '' @ hyphens_to_spaces (toKebabCase role) @ '' --- */'',
           ''  --md-sys-color-'' @ toKebabCase role @ '': '' @ hexToRgbValues v
             @ ''; /* Locked Color */'']
          @ (if role \<in> set KEYS_TO_SKIP then []
             else case createTonalPaletteFrom100 lib v of
                    Inr (errors, Some palette) \<Rightarrow>
                      map (\<lambda>shade. ''  --md-sys-color-'' @ toKebabCase role @ ''-'' @ decimal shade
                             @ '': '' @ hexToRgbValues (get_property palette shade) @ '';'')
                        [50, 100, 200, 300, 400, 500, 600, 700, 800, 900, 950]
                  | _ \<Rightarrow> [])"
    for role v
  proof (cases rule: role_cases [where role = role and lib = lib and v = v])
    case skipped
    then show ?thesis
      by (simp add: entries_without_palette [OF palette_of_skipped_role(1)] template_defs)
  next
    case aborted
    then show ?thesis
      by (simp add: entries_without_palette [OF palette_of_failed_role(1)] template_defs)
  next
    case (failed errs)
    then show ?thesis
      by (simp add: entries_without_palette [OF palette_of_failed_role(2)] template_defs)
  next
    case (generated errs pal)
    then show ?thesis
      by (simp add: entries_with_palette(1) [OF generated] template_defs shade_rgb_def)
  qed
  have dark_entries_literal:
    "dark_entries lib (role, v) =
          [LF # ''    /* --- '' @ hyphens_to_spaces (toKebabCase role) @ '' --- */'',
           ''    --md-sys-color-'' @ toKebabCase role @ '': '' @ hexToRgbValues v
             @ ''; /* Locked Color */'']
          @ (if role \<in> set KEYS_TO_SKIP then []
             else case createTonalPaletteFrom100 lib v of
                    Inr (errors, Some palette) \<Rightarrow>
                      map (\<lambda>shade. ''    --md-sys-color-'' @ toKebabCase role @ ''-'' @ decimal shade
                             @ '': '' @ hexToRgbValues (get_property palette shade) @ '';'')
                        [50, 100, 200, 300, 400, 500, 600, 700, 800, 900, 950]
                  | _ \<Rightarrow> [])"
    for role v
  proof (cases rule: role_cases [where role = role and lib = lib and v = v])
    case skipped
    then show ?thesis
      by (simp add: entries_without_palette [OF palette_of_skipped_role(1)] template_defs)
  next
    case aborted
    then show ?thesis
      by (simp add: entries_without_palette [OF palette_of_failed_role(1)] template_defs)
  next
    case (failed errs)
    then show ?thesis
      by (simp add: entries_without_palette [OF palette_of_failed_role(2)] template_defs)
  next
    case (generated errs pal)
    then show ?thesis
      by (simp add: entries_with_palette(2) [OF generated] template_defs shade_rgb_def)
  qed
  have same: "themeRegistrationOutput out' = themeRegistrationOutput out"
    if "action lib sch' = Inr out'" "light sch' = light sch" for sch' out'
    using action_completed [OF that(1)] action_completed [OF assms] that(2) by simp
  show ?thesis
    using same unfolding action_completed [OF assms] map_entries
      theme_entries_literal root_entries_literal dark_entries_literal
    by (auto simp add: root_header_def dark_header_def dark_footer_def rule_line_def)
qed

theorem theme_block_registers_light_scheme_only_witness:
  "action demo_chroma readme_theme =
     Inr \<lparr>cssRawVarsOutput =
        [''/* ================================================================== */'',
         ''/* MATERIAL DESIGN COLOR TOKENS (LIGHT & DARK)                  */'',
         ''/* ================================================================== */'' @ [LF],
         '':root {'',
         LF # ''  /* --- primary --- */'',
         ''  --md-sys-color-primary: 103, 80, 164; /* Locked Color */'',
         ''  --md-sys-color-primary-50: 179, 168, 210;'',
         ''  --md-sys-color-primary-100: 103, 80, 164;'',
         ''  --md-sys-color-primary-200: 87, 68, 138;'',
         ''  --md-sys-color-primary-300: 80, 63, 127;'',
         ''  --md-sys-color-primary-400: 73, 58, 116;'',
         ''  --md-sys-color-primary-500: 66, 52, 105;'',
         ''  --md-sys-color-primary-600: 60, 47, 93;'',
         ''  --md-sys-color-primary-700: 53, 42, 82;'',
         ''  --md-sys-color-primary-800: 46, 37, 71;'',
         ''  --md-sys-color-primary-900: 39, 32, 60;'',
         ''  --md-sys-color-primary-950: 33, 27, 49;'',
         LF # ''  /* --- surface --- */'',
         ''  --md-sys-color-surface: 255, 251, 254; /* Locked Color */'',
         ''}'' @ [LF],
         ''@media (prefers-color-scheme: dark) {'',
         ''  :root {'',
         LF # ''    /* --- primary --- */'',
         ''    --md-sys-color-primary: 208, 188, 255; /* Locked Color */'',
         ''    --md-sys-color-primary-50: 232, 222, 255;'',
         ''    --md-sys-color-primary-100: 208, 188, 255;'',
         ''    --md-sys-color-primary-200: 174, 157, 213;'',
         ''    --md-sys-color-primary-300: 159, 144, 195;'',
         ''    --md-sys-color-primary-400: 145, 131, 178;'',
         ''    --md-sys-color-primary-500: 131, 118, 160;'',
         ''    --md-sys-color-primary-600: 116, 105, 142;'',
         ''    --md-sys-color-primary-700: 102, 93, 125;'',
         ''    --md-sys-color-primary-800: 87, 80, 107;'',
         ''    --md-sys-color-primary-900: 73, 67, 90;'',
         ''    --md-sys-color-primary-950: 59, 54, 72;'',
         LF # ''    /* --- surface --- */'',
         ''    --md-sys-color-surface: 28, 27, 31; /* Locked Color */'',
         ''  }'',
         ''}'' @ [LF]],
      themeRegistrationOutput =
        [''@theme {'',
         LF # ''  /* primary */'',
         ''  --color-primary: var(--md-sys-color-primary); /* Locked Color */'',
         ''  --color-primary-50: var(--md-sys-color-primary-50);'',
         ''  --color-primary-100: var(--md-sys-color-primary-100);'',
         ''  --color-primary-200: var(--md-sys-color-primary-200);'',
         ''  --color-primary-300: var(--md-sys-color-primary-300);'',
         ''  --color-primary-400: var(--md-sys-color-primary-400);'',
         ''  --color-primary-500: var(--md-sys-color-primary-500);'',
         ''  --color-primary-600: var(--md-sys-color-primary-600);'',
         ''  --color-primary-700: var(--md-sys-color-primary-700);'',
         ''  --color-primary-800: var(--md-sys-color-primary-800);'',
         ''  --color-primary-900: var(--md-sys-color-primary-900);'',
         ''  --color-primary-950: var(--md-sys-color-primary-950);'',
         LF # ''  /* surface */'',
         ''  --color-surface: var(--md-sys-color-surface); /* Locked Color */'',
         ''}''],
      console_error = []\<rparr>"
proof -
  let ?out = "\<lparr>cssRawVarsOutput = root_header
         @ concat (map (root_entries demo_chroma) (light readme_theme))
         @ dark_header @ concat (map (dark_entries demo_chroma) (dark readme_theme)) @ dark_footer,
      themeRegistrationOutput = ''@theme {''
         # concat (map (theme_entries demo_chroma) (light readme_theme)) @ [''}''],
      console_error = []\<rparr>"
  have fields: "?out = \<lparr>cssRawVarsOutput = cssRawVarsOutput ?out,
      themeRegistrationOutput = themeRegistrationOutput ?out, console_error = []\<rparr>"
    by simp
  show ?thesis
    unfolding readme_theme_completes
    apply (subst fields)
    using theme_block_registers_light_scheme_only [OF readme_theme_completes]
      decimal_shades rgb_demo_palette rgb_demo_dark_palette
    by (simp add: readme_theme_def skip_examples kebab_examples rgb_examples
        demo_palette_generated demo_dark_palette_generated hyphens_to_spaces_def)
qed

text \<open>
  Claim C10. For a role outside the skip list whose palette was generated, the shade
  declarations follow the declaration of the base colour in the order 50, 100, 200, 300,
  400, 500, 600, 700, 800, 900, 950, in the \<^verbatim>\<open>:root\<close> block, in the \<^verbatim>\<open>@theme\<close> block and
  in the dark block: the loop visits the integer keys of the palette in ascending order.
\<close>

theorem shades_emitted_in_ascending_order:
  assumes "role \<notin> set KEYS_TO_SKIP"
    and "createTonalPaletteFrom100 lib colorHex = Inr (errs, Some pal)"
  shows "light_role lib st (role, colorHex) =
           Inr (st\<lparr>cssRawVarsOutput := cssRawVarsOutput st
                @ [light_comment (toKebabCase role),
                   light_base_decl (toKebabCase role) (hexToRgbValues colorHex)]
                @ map (\<lambda>shade. light_shade_decl (toKebabCase role) shade (shade_rgb pal shade))
                    [50, 100, 200, 300, 400, 500, 600, 700, 800, 900, 950],
              themeRegistrationOutput := themeRegistrationOutput st
                @ [theme_comment (toKebabCase role), theme_base_decl (toKebabCase role)]
                @ map (theme_shade_decl (toKebabCase role))
                    [50, 100, 200, 300, 400, 500, 600, 700, 800, 900, 950]\<rparr>)
    \<and> dark_role lib st (role, colorHex) =
           Inr (st\<lparr>cssRawVarsOutput := cssRawVarsOutput st
                @ [dark_comment (toKebabCase role),
                   dark_base_decl (toKebabCase role) (hexToRgbValues colorHex)]
                @ map (\<lambda>shade. dark_shade_decl (toKebabCase role) shade (shade_rgb pal shade))
                    [50, 100, 200, 300, 400, 500, 600, 700, 800, 900, 950]\<rparr>)"
  by (simp add: light_role_eq dark_role_eq entries_with_palette [OF assms])

theorem shades_emitted_in_ascending_order_witness:
  "''primary'' \<notin> set KEYS_TO_SKIP
   \<and> createTonalPaletteFrom100 demo_chroma (JStr ''#6750A4'') = Inr ([], Some demo_palette)
   \<and> light_role demo_chroma nothing_emitted (''primary'', JStr ''#6750A4'') =
       Inr \<lparr>cssRawVarsOutput =
       [LF # ''  /* --- primary --- */'',
        ''  --md-sys-color-primary: 103, 80, 164; /* Locked Color */'',
        ''  --md-sys-color-primary-50: 179, 168, 210;'',
        ''  --md-sys-color-primary-100: 103, 80, 164;'',
        ''  --md-sys-color-primary-200: 87, 68, 138;'',
        ''  --md-sys-color-primary-300: 80, 63, 127;'',
        ''  --md-sys-color-primary-400: 73, 58, 116;'',
        ''  --md-sys-color-primary-500: 66, 52, 105;'',
        ''  --md-sys-color-primary-600: 60, 47, 93;'',
        ''  --md-sys-color-primary-700: 53, 42, 82;'',
        ''  --md-sys-color-primary-800: 46, 37, 71;'',
        ''  --md-sys-color-primary-900: 39, 32, 60;'',
        ''  --md-sys-color-primary-950: 33, 27, 49;''],
       themeRegistrationOutput =
       [LF # ''  /* primary */'',
        ''  --color-primary: var(--md-sys-color-primary); /* Locked Color */'',
        ''  --color-primary-50: var(--md-sys-color-primary-50);'',
        ''  --color-primary-100: var(--md-sys-color-primary-100);'',
        ''  --color-primary-200: var(--md-sys-color-primary-200);'',
        ''  --color-primary-300: var(--md-sys-color-primary-300);'',
        ''  --color-primary-400: var(--md-sys-color-primary-400);'',
        ''  --color-primary-500: var(--md-sys-color-primary-500);'',
        ''  --color-primary-600: var(--md-sys-color-primary-600);'',
        ''  --color-primary-700: var(--md-sys-color-primary-700);'',
        ''  --color-primary-800: var(--md-sys-color-primary-800);'',
        ''  --color-primary-900: var(--md-sys-color-primary-900);'',
        ''  --color-primary-950: var(--md-sys-color-primary-950);''],
       console_error = []\<rparr>
   \<and> dark_role demo_chroma nothing_emitted (''primary'', JStr ''#6750A4'') =
       Inr \<lparr>cssRawVarsOutput =
       [LF # ''    /* --- primary --- */'',
        ''    --md-sys-color-primary: 103, 80, 164; /* Locked Color */'',
        ''    --md-sys-color-primary-50: 179, 168, 210;'',
        ''    --md-sys-color-primary-100: 103, 80, 164;'',
        ''    --md-sys-color-primary-200: 87, 68, 138;'',
        ''    --md-sys-color-primary-300: 80, 63, 127;'',
        ''    --md-sys-color-primary-400: 73, 58, 116;'',
        ''    --md-sys-color-primary-500: 66, 52, 105;'',
        ''    --md-sys-color-primary-600: 60, 47, 93;'',
        ''    --md-sys-color-primary-700: 53, 42, 82;'',
        ''    --md-sys-color-primary-800: 46, 37, 71;'',
        ''    --md-sys-color-primary-900: 39, 32, 60;'',
        ''    --md-sys-color-primary-950: 33, 27, 49;''],
       themeRegistrationOutput = [], console_error = []\<rparr>"
  using shades_emitted_in_ascending_order [OF skip_examples(1) demo_palette_generated,
      of nothing_emitted]
    demo_palette_generated decimal_shades rgb_demo_palette
  by (simp add: skip_examples kebab_examples rgb_examples nothing_emitted_def template_defs
      shade_rgb_def hyphens_to_spaces_def)

end
